theory Spec2Isabelle
  imports Complex_Main
begin

section \<open>Warehouse bin assignment: the notebook \<open>pulp_optimization.ipynb\<close>\<close>

text \<open>
  The notebook is one code cell: it defines two data frames (\<open>materials\<close>, \<open>bins\<close>),
  builds the \<open>compatibility\<close> dictionary, builds a PuLP model (variables, objective,
  three families of constraints), calls \<open>model.solve()\<close> and prints the pairs whose
  variable has the value 1, then the value of the objective.

  The integer columns of the data frames are \<open>int64\<close> columns: their values are modelled
  as \<open>int\<close>, and the one place where the cell multiplies two of them (the objective)
  wraps the product to 64 bits. The values a solver writes into the variables are
  modelled as \<open>real\<close>; the rounding of the floating-point operations that Python applies
  to them is a parameter.
\<close>

subsection \<open>Step 1: the data\<close>

text \<open>A row of the data frame \<open>materials\<close> and a row of the data frame \<open>bins\<close>. The
  columns \<open>size\<close> and \<open>type\<close> are called \<open>size_col\<close> and \<open>type_col\<close> here.\<close>

record material_row =
  material :: string
  frequency :: int
  size_col :: int
  tag :: string

record bin_row =
  bin :: string
  capacity :: int
  distance :: int
  type_col :: string

definition materials :: "material_row list" where
  "materials =
    [\<lparr>material = ''M1'', frequency = 3, size_col = 5, tag = ''fragile''\<rparr>,
     \<lparr>material = ''M2'', frequency = 1, size_col = 4, tag = ''regular''\<rparr>,
     \<lparr>material = ''M3'', frequency = 2, size_col = 6, tag = ''hazardous''\<rparr>,
     \<lparr>material = ''M4'', frequency = 3, size_col = 7, tag = ''regular''\<rparr>,
     \<lparr>material = ''M5'', frequency = 2, size_col = 3, tag = ''regular''\<rparr>,
     \<lparr>material = ''M6'', frequency = 1, size_col = 2, tag = ''hazardous''\<rparr>,
     \<lparr>material = ''M7'', frequency = 3, size_col = 6, tag = ''fragile''\<rparr>,
     \<lparr>material = ''M8'', frequency = 2, size_col = 5, tag = ''regular''\<rparr>,
     \<lparr>material = ''M9'', frequency = 1, size_col = 4, tag = ''hazardous''\<rparr>,
     \<lparr>material = ''M10'', frequency = 3, size_col = 6, tag = ''fragile''\<rparr>]"

definition bins :: "bin_row list" where
  "bins =
    [\<lparr>bin = ''B1'', capacity = 15, distance = 1, type_col = ''safe''\<rparr>,
     \<lparr>bin = ''B2'', capacity = 20, distance = 2, type_col = ''regular''\<rparr>,
     \<lparr>bin = ''B3'', capacity = 10, distance = 3, type_col = ''special''\<rparr>,
     \<lparr>bin = ''B4'', capacity = 25, distance = 1, type_col = ''regular''\<rparr>,
     \<lparr>bin = ''B5'', capacity = 12, distance = 4, type_col = ''safe''\<rparr>]"

subsection \<open>Step 2: the compatibility matrix\<close>

text \<open>The body of the double loop: the value stored for one pair of rows.\<close>

definition compatibility_entry :: "material_row \<Rightarrow> bin_row \<Rightarrow> int" where
  "compatibility_entry item b =
    (if tag item = ''fragile'' \<and> type_col b \<noteq> ''safe'' then 0
     else if tag item = ''hazardous'' \<and> type_col b \<noteq> ''special'' then 0
     else 1)"

text \<open>The dictionary \<open>compatibility\<close>, keyed by the pair of identifiers: the outer loop
  runs over the rows of \<open>materials\<close>, the inner one over the rows of \<open>bins\<close>, and each
  step stores one entry (a later store to the same key overwrites the earlier one).\<close>

definition build_compatibility ::
  "material_row list \<Rightarrow> bin_row list \<Rightarrow> (string \<times> string \<rightharpoonup> int)" where
  "build_compatibility ms bs =
    fold (\<lambda>item c. fold (\<lambda>b c'. c'((material item, bin b) \<mapsto> compatibility_entry item b)) bs c)
      ms Map.empty"

subsection \<open>Step 3: the model\<close>

text \<open>What the notebook can raise: while it builds the model, a \<open>KeyError\<close> from a
  dictionary or from \<open>.loc\<close> on a label that is absent, and a \<open>ValueError\<close> when \<open>.loc\<close>
  meets a label that several rows carry (pandas then returns a Series instead of a
  number, and the multiplication of a variable by it has no truth value to test); in
  \<open>model.solve()\<close>, a \<open>PulpSolverError\<close> when two variables of the model have the same name.\<close>

datatype error = KeyError | ValueError | PulpSolverError

definition bind_err :: "error + 'a \<Rightarrow> ('a \<Rightarrow> error + 'b) \<Rightarrow> error + 'b" where
  "bind_err r f = (case r of Inl e \<Rightarrow> Inl e | Inr a \<Rightarrow> f a)"

text \<open>Evaluating a list of computations in order, stopping at the first that raises (a
  generator inside \<open>lpSum\<close>, or the statements of a \<open>for\<close> loop).\<close>

fun sequence_err :: "(error + 'a) list \<Rightarrow> error + 'a list" where
  "sequence_err [] = Inr []"
| "sequence_err (r # rs) = bind_err r (\<lambda>a. bind_err (sequence_err rs) (\<lambda>as. Inr (a # as)))"

text \<open>\<open>df.set_index(key).loc[k, column]\<close> on the rows \<open>(label, value of the column)\<close>.
  With unique labels, which every statement below about the model assumes, the lookup
  of a label of the frame returns its number.\<close>

definition loc :: "(string \<times> int) list \<Rightarrow> string \<Rightarrow> error + int" where
  "loc rows k =
    (case filter (\<lambda>r. fst r = k) rows of
       [] \<Rightarrow> Inl KeyError
     | [r] \<Rightarrow> Inr (snd r)
     | _ \<Rightarrow> Inl ValueError)"

text \<open>A decision variable \<open>x[i][b]\<close> is identified by its two keys. A linear expression
  is the list of its terms (variable, coefficient), in the order the generator yields
  them; a constraint compares such an expression with a number.

  A product \<open>variable * number\<close> is the expression with that one term, except that PuLP
  returns the empty expression when the number is 0; multiplying an expression by a
  number multiplies its coefficient, and by 0 empties it. The coefficients come from
  \<open>int64\<close> columns, so the product of two of them wraps to 64 bits (\<open>wrap64\<close>).\<close>

definition wrap64 :: "int \<Rightarrow> int" where
  "wrap64 n = (n + 2 ^ 63) mod 2 ^ 64 - 2 ^ 63"

type_synonym LpVariable = "string \<times> string"

type_synonym LpAffineExpression = "(LpVariable \<times> int) list"

datatype LpConstraintSense = LpConstraintLE | LpConstraintEQ | LpConstraintGE

record LpConstraint =
  lhs :: LpAffineExpression
  sense :: LpConstraintSense
  rhs :: int

record LpProblem =
  objective :: LpAffineExpression
  constraints :: "LpConstraint list"

text \<open>\<open>LpVariable.dicts("assign", (materials['material'], bins['bin']), cat=LpBinary)\<close>:
  one binary variable for every pair of the two index lists.\<close>

definition LpVariable_dicts :: "string list \<Rightarrow> string list \<Rightarrow> LpVariable list" where
  "LpVariable_dicts is bs = concat (map (\<lambda>i. map (\<lambda>b. (i, b)) bs) is)"

text \<open>The name PuLP gives the variable of a pair: \<open>"assign_%s_%s" % (i, b)\<close>, in which it
  replaces each of the characters \<open>- + [ ] space > /\<close> by an underscore.\<close>

definition sanitize :: "string \<Rightarrow> string" where
  "sanitize s = map (\<lambda>c. if c \<in> set ''-+[] >/'' then CHR ''_'' else c) s"

definition variable_name :: "LpVariable \<Rightarrow> string" where
  "variable_name x = sanitize (''assign_'' @ fst x @ ''_'' @ snd x)"

text \<open>The objective: \<open>lpSum(x[i][b] * frequency of i * distance of b for i ... for b ...)\<close>.
  The generator looks the two numbers of every pair up; a pair whose frequency or
  distance is 0 contributes the empty expression, every other pair the term with the
  coefficient \<open>distance * frequency\<close>, wrapped to 64 bits.\<close>

definition objective_expr :: "material_row list \<Rightarrow> bin_row list \<Rightarrow> error + LpAffineExpression" where
  "objective_expr ms bs =
    bind_err
      (sequence_err
        (map (\<lambda>x. bind_err (loc (map (\<lambda>m. (material m, frequency m)) ms) (fst x)) (\<lambda>f.
                   bind_err (loc (map (\<lambda>b. (bin b, distance b)) bs) (snd x)) (\<lambda>d.
                   Inr (x, f, d))))
          (LpVariable_dicts (map material ms) (map bin bs)))) (\<lambda>rows.
    Inr (map (\<lambda>r. (fst r, wrap64 (snd (snd r) * fst (snd r))))
          (filter (\<lambda>r. fst (snd r) \<noteq> 0 \<and> snd (snd r) \<noteq> 0) rows)))"

text \<open>``Each material assigned to one bin'': \<open>lpSum(x[i][b] for b in bins['bin']) == 1\<close>.\<close>

definition coverage_constraints :: "material_row list \<Rightarrow> bin_row list \<Rightarrow> LpConstraint list" where
  "coverage_constraints ms bs =
    map (\<lambda>i. \<lparr>lhs = map (\<lambda>b. ((i, b), 1)) (map bin bs), sense = LpConstraintEQ, rhs = 1\<rparr>)
      (map material ms)"

text \<open>``Bin capacity'': \<open>lpSum(x[i][b] * size of i for i ...) <= capacity of b\<close>. A
  material of size 0 contributes the empty expression.\<close>

definition capacity_constraints :: "material_row list \<Rightarrow> bin_row list \<Rightarrow> error + LpConstraint list" where
  "capacity_constraints ms bs =
    sequence_err
      (map (\<lambda>b. bind_err
                  (sequence_err
                    (map (\<lambda>i. bind_err (loc (map (\<lambda>m. (material m, size_col m)) ms) i) (\<lambda>s.
                               Inr ((i, b), s)))
                      (map material ms))) (\<lambda>e.
                 bind_err (loc (map (\<lambda>r. (bin r, capacity r)) bs) b) (\<lambda>c.
                 Inr \<lparr>lhs = filter (\<lambda>t. snd t \<noteq> 0) e, sense = LpConstraintLE, rhs = c\<rparr>)))
        (map bin bs))"

text \<open>``Respect compatibility'': \<open>x[i][b] <= compatibility[(i, b)]\<close>, one constraint for
  every pair.\<close>

definition compatibility_constraints ::
  "(string \<times> string \<rightharpoonup> int) \<Rightarrow> material_row list \<Rightarrow> bin_row list \<Rightarrow> error + LpConstraint list" where
  "compatibility_constraints compatibility ms bs =
    sequence_err
      (map (\<lambda>x. case compatibility x of
                   None \<Rightarrow> Inl KeyError
                 | Some c \<Rightarrow> Inr \<lparr>lhs = [(x, 1)], sense = LpConstraintLE, rhs = c\<rparr>)
        (LpVariable_dicts (map material ms) (map bin bs)))"

text \<open>The model as the notebook leaves it before \<open>model.solve()\<close>: the objective first,
  then the three loops in their order.\<close>

definition build_model :: "material_row list \<Rightarrow> bin_row list \<Rightarrow> error + LpProblem" where
  "build_model ms bs =
    bind_err (objective_expr ms bs) (\<lambda>obj.
    bind_err (capacity_constraints ms bs) (\<lambda>cap.
    bind_err (compatibility_constraints (build_compatibility ms bs) ms bs) (\<lambda>comp.
    Inr \<lparr>objective = obj, constraints = coverage_constraints ms bs @ cap @ comp\<rparr>)))"

subsection \<open>Solving and printing\<close>

text \<open>The values a solver leaves in the variables (\<open>varValue\<close>, \<open>None\<close> while unset), and
  the number a linear expression denotes under them (\<open>None\<close> as soon as one variable has
  no value): this is what the constraints of the model speak about.\<close>

type_synonym varValues = "LpVariable \<rightharpoonup> real"

fun expr_value :: "varValues \<Rightarrow> LpAffineExpression \<Rightarrow> real option" where
  "expr_value v [] = Some 0"
| "expr_value v ((x, c) # ts) =
    (case v x of
       None \<Rightarrow> None
     | Some r \<Rightarrow> map_option (\<lambda>s. r * of_int c + s) (expr_value v ts))"

text \<open>What it means for values to satisfy a constraint, and to respect the category
  \<open>LpBinary\<close> of the variables.\<close>

definition holds :: "varValues \<Rightarrow> LpConstraint \<Rightarrow> bool" where
  "holds v c =
    (case expr_value v (lhs c) of
       None \<Rightarrow> False
     | Some r \<Rightarrow>
        (case sense c of
           LpConstraintLE \<Rightarrow> r \<le> of_int (rhs c)
         | LpConstraintEQ \<Rightarrow> r = of_int (rhs c)
         | LpConstraintGE \<Rightarrow> r \<ge> of_int (rhs c)))"

definition binary_values :: "varValues \<Rightarrow> LpVariable list \<Rightarrow> bool" where
  "binary_values v xs = list_all (\<lambda>x. v x = Some 0 \<or> v x = Some 1) xs"

definition feasible :: "varValues \<Rightarrow> material_row list \<Rightarrow> bin_row list \<Rightarrow> LpProblem \<Rightarrow> bool" where
  "feasible v ms bs model =
    (binary_values v (LpVariable_dicts (map material ms) (map bin bs)) \<and>
     list_all (holds v) (constraints model))"

text \<open>\<open>value(expression)\<close> as Python computes it: starting from the constant 0, it adds
  \<open>varValue * coefficient\<close> term by term in floating point, and returns \<open>None\<close> at the first
  variable without a value. \<open>rnd\<close> is the rounding of a real number to a double; it is
  applied to the coefficient (an \<open>int64\<close> turned into a double), to the product and to the
  sum. The repository does not contain it, so it is a parameter; a result beyond the
  range of the doubles (an infinity) has no counterpart here.\<close>

fun py_value :: "(real \<Rightarrow> real) \<Rightarrow> varValues \<Rightarrow> real \<Rightarrow> LpAffineExpression \<Rightarrow> real option" where
  "py_value rnd v s [] = Some s"
| "py_value rnd v s ((x, c) # ts) =
    (case v x of
       None \<Rightarrow> None
     | Some r \<Rightarrow> py_value rnd v (rnd (s + rnd (r * rnd (of_int c)))) ts)"

text \<open>\<open>value(model.objective)\<close> after \<open>model.solve()\<close>. When the objective has no term, PuLP
  adds a dummy variable to it for the solver and leaves it there with the coefficient 0;
  that variable never gets a value, so the result is \<open>None\<close>.\<close>

definition objective_value :: "(real \<Rightarrow> real) \<Rightarrow> varValues \<Rightarrow> LpProblem \<Rightarrow> real option" where
  "objective_value rnd v model =
    (if objective model = [] then None else py_value rnd v 0 (objective model))"

text \<open>The statuses \<open>model.solve()\<close> can return. A solver is whatever maps a model to a
  status and the values of the variables; PuLP and the CBC solver behind it are not part
  of the repository.\<close>

datatype LpStatus =
  LpStatusOptimal | LpStatusNotSolved | LpStatusInfeasible | LpStatusUnbounded | LpStatusUndefined

type_synonym solver = "LpProblem \<Rightarrow> LpStatus \<times> varValues"

text \<open>The output loop: in the order of the two index lists, the pairs whose variable has
  the value 1; each is printed as \<open>f"{i} -> {b}"\<close>.\<close>

definition output_loop :: "varValues \<Rightarrow> string list \<Rightarrow> string list \<Rightarrow> (string \<times> string) list" where
  "output_loop v is bs = filter (\<lambda>x. v x = Some 1) (LpVariable_dicts is bs)"

definition format_line :: "string \<times> string \<Rightarrow> string" where
  "format_line x = fst x @ '' -> '' @ snd x"

record cell_output =
  assigned_lines :: "string list"
  total_weighted_distance :: "real option"

text \<open>\<open>model.variables()\<close>: the variables that occur in the objective or in a
  constraint.\<close>

definition variables :: "LpProblem \<Rightarrow> LpVariable list" where
  "variables model = remdups (map fst (objective model @ concat (map lhs (constraints model))))"

text \<open>The whole cell. \<open>model.solve()\<close> raises when two variables of the model share a
  name; the status it returns is dropped, as in the notebook, where the call is a
  statement of its own. Then the output loop runs and the value of the objective is
  printed, whatever the status was.\<close>

definition notebook ::
  "(real \<Rightarrow> real) \<Rightarrow> solver \<Rightarrow> material_row list \<Rightarrow> bin_row list \<Rightarrow> error + cell_output" where
  "notebook rnd solve ms bs =
    bind_err (build_model ms bs) (\<lambda>model.
      if distinct (map variable_name (variables model)) then
        (let v = snd (solve model) in
         Inr \<lparr>assigned_lines = map format_line (output_loop v (map material ms) (map bin bs)),
              total_weighted_distance = objective_value rnd v model\<rparr>)
      else Inl PulpSolverError)"

text \<open>Quantities read off a printed assignment \<open>a\<close> (the list of printed pairs): the
  total size of the materials printed with a given bin, and the sum of
  frequency times distance over the printed pairs.\<close>

definition assigned_size ::
  "(string \<times> string) list \<Rightarrow> material_row list \<Rightarrow> bin_row \<Rightarrow> int" where
  "assigned_size a ms b =
    sum_list (map size_col (filter (\<lambda>m. (material m, bin b) \<in> set a) ms))"


text \<open>The output saved in the notebook lists eight pairs. \<open>saved_values\<close> is a valuation
  that prints them: 1 on these pairs and 0 elsewhere (the saved output does not show the
  values of the other variables, only that none of them is 1).\<close>

definition saved_pairs :: "(string \<times> string) list" where
  "saved_pairs =
    [(''M1'', ''B1''), (''M2'', ''B4''), (''M3'', ''B3''), (''M4'', ''B4''),
     (''M5'', ''B4''), (''M6'', ''B3''), (''M8'', ''B4''), (''M10'', ''B1'')]"

definition saved_values :: varValues where
  "saved_values x = (if x \<in> set saved_pairs then Some 1 else Some 0)"

text \<open>The model written without lookups: the terms of the objective, the capacity
  constraint of a bin and the compatibility constraint of a pair, as the builder returns
  them for a catalog with unique identifiers (lemma \<open>build_model_distinct\<close> below).\<close>

definition objective_terms :: "material_row list \<Rightarrow> bin_row list \<Rightarrow> LpAffineExpression" where
  "objective_terms ms bs =
    map (\<lambda>p. ((material (fst p), bin (snd p)), wrap64 (distance (snd p) * frequency (fst p))))
      (filter (\<lambda>p. frequency (fst p) \<noteq> 0 \<and> distance (snd p) \<noteq> 0) (List.product ms bs))"

definition capacity_row :: "material_row list \<Rightarrow> bin_row \<Rightarrow> LpConstraint" where
  "capacity_row ms b =
    \<lparr>lhs = map (\<lambda>m. ((material m, bin b), size_col m)) (filter (\<lambda>m. size_col m \<noteq> 0) ms),
     sense = LpConstraintLE, rhs = capacity b\<rparr>"

definition compatibility_row :: "material_row \<times> bin_row \<Rightarrow> LpConstraint" where
  "compatibility_row p =
    \<lparr>lhs = [((material (fst p), bin (snd p)), 1)], sense = LpConstraintLE,
     rhs = compatibility_entry (fst p) (snd p)\<rparr>"

text \<open>Three catalogs of one material and one bin. In the first the material is larger
  than the bin, in the second it is hazardous and the bin is regular: both models are
  infeasible. In the third the bin is at distance 0 and the model is feasible.
  \<open>all_ones\<close> is the solver outcome that leaves the value 1 in every variable.\<close>

definition large_material :: "material_row list" where
  "large_material = [\<lparr>material = ''M1'', frequency = 1, size_col = 10, tag = ''regular''\<rparr>]"

definition small_bin :: "bin_row list" where
  "small_bin = [\<lparr>bin = ''B1'', capacity = 5, distance = 1, type_col = ''regular''\<rparr>]"

definition hazardous_material :: "material_row list" where
  "hazardous_material = [\<lparr>material = ''M1'', frequency = 1, size_col = 1, tag = ''hazardous''\<rparr>]"

definition regular_bin :: "bin_row list" where
  "regular_bin = [\<lparr>bin = ''B2'', capacity = 5, distance = 1, type_col = ''regular''\<rparr>]"



definition all_ones :: varValues where
  "all_ones x = Some 1"

section \<open>The compatibility matrix\<close>

text \<open>A store into a dictionary inside a loop: the entry read afterwards is the one the
  last store to that key wrote.\<close>

lemma find_snoc:
  "find P (xs @ [x]) = (case find P xs of None \<Rightarrow> (if P x then Some x else None) | Some y \<Rightarrow> Some y)"
  by (induction xs) auto

lemma find_Some_mem: "find P xs = Some x \<Longrightarrow> x \<in> set xs \<and> P x"
  by (induction xs) (auto split: if_splits)

lemma fold_upd_lookup:
  "fold (\<lambda>x m. m(key x \<mapsto> val x)) xs m k =
     (case find (\<lambda>x. key x = k) (rev xs) of None \<Rightarrow> m k | Some x \<Rightarrow> Some (val x))"
  by (induction xs arbitrary: m) (auto simp: find_snoc split: option.splits)

lemma fold_nested:
  "fold (\<lambda>x c. fold (F x) ys c) xs c0 = fold (\<lambda>p. F (fst p) (snd p)) (List.product xs ys) c0"
proof (induction xs arbitrary: c0)
  case Nil
  then show ?case by simp
next
  case (Cons x xs)
  have "fold (\<lambda>p. F (fst p) (snd p)) (map (Pair x) ys) c0 = fold (F x) ys c0"
    by (simp add: fold_map comp_def)
  then show ?case using Cons by simp
qed

lemma build_compatibility_lookup:
  "build_compatibility ms bs k =
     (case find (\<lambda>p. (material (fst p), bin (snd p)) = k) (rev (List.product ms bs)) of
        None \<Rightarrow> None
      | Some p \<Rightarrow> Some (compatibility_entry (fst p) (snd p)))"
proof -
  have "build_compatibility ms bs =
      fold (\<lambda>p c. c((material (fst p), bin (snd p)) \<mapsto> compatibility_entry (fst p) (snd p)))
        (List.product ms bs) Map.empty"
    unfolding build_compatibility_def
    by (rule fold_nested [where F = "\<lambda>item b c'. c'((material item, bin b) \<mapsto> compatibility_entry item b)"])
  then show ?thesis
    by (simp add: fold_upd_lookup [where key = "\<lambda>p. (material (fst p), bin (snd p))"
          and val = "\<lambda>p. compatibility_entry (fst p) (snd p)"])
qed

lemma build_compatibility_some:
  assumes "item \<in> set ms" "b \<in> set bs"
  shows "\<exists>item' b'. item' \<in> set ms \<and> b' \<in> set bs \<and> material item' = material item \<and>
           bin b' = bin b \<and>
           build_compatibility ms bs (material item, bin b) = Some (compatibility_entry item' b')"
proof (cases "find (\<lambda>p. (material (fst p), bin (snd p)) = (material item, bin b)) (rev (List.product ms bs))")
  case None
  then have "\<not> (\<exists>p. p \<in> set (rev (List.product ms bs)) \<and> (material (fst p), bin (snd p)) = (material item, bin b))"
    by (simp add: find_None_iff)
  moreover have "(item, b) \<in> set (rev (List.product ms bs))" using assms by simp
  ultimately show ?thesis by fastforce
next
  case (Some p)
  then have "p \<in> set (rev (List.product ms bs))" and "(material (fst p), bin (snd p)) = (material item, bin b)"
    using find_Some_mem [OF Some] by auto
  then show ?thesis using Some
    by (intro exI [of _ "fst p"] exI [of _ "snd p"]) (auto simp: build_compatibility_lookup)
qed

lemma build_compatibility_none:
  assumes "k \<notin> set (LpVariable_dicts (map material ms) (map bin bs))"
  shows "build_compatibility ms bs k = None"
proof -
  have "\<not> (\<exists>p. p \<in> set (rev (List.product ms bs)) \<and> (material (fst p), bin (snd p)) = k)"
    using assms by (auto simp: LpVariable_dicts_def)
  then have "find (\<lambda>p. (material (fst p), bin (snd p)) = k) (rev (List.product ms bs)) = None"
    by (simp add: find_None_iff)
  then show ?thesis by (simp add: build_compatibility_lookup)
qed

lemma distinct_ids_eq:
  "distinct (map f xs) \<Longrightarrow> x \<in> set xs \<Longrightarrow> y \<in> set xs \<Longrightarrow> f x = f y \<Longrightarrow> x = y"
  by (meson distinct_map inj_on_def)

lemma build_compatibility_distinct:
  assumes "distinct (map material ms)" "distinct (map bin bs)" "item \<in> set ms" "b \<in> set bs"
  shows "build_compatibility ms bs (material item, bin b) = Some (compatibility_entry item b)"
proof -
  obtain item' b' where h: "item' \<in> set ms" "b' \<in> set bs" "material item' = material item"
    "bin b' = bin b"
    "build_compatibility ms bs (material item, bin b) = Some (compatibility_entry item' b')"
    using build_compatibility_some [OF assms(3,4)] by blast
  have "item' = item" using distinct_ids_eq [OF assms(1) h(1) assms(3) h(3)] .
  moreover have "b' = b" using distinct_ids_eq [OF assms(2) h(2) assms(4) h(4)] .
  ultimately show ?thesis using h(5) by simp
qed

lemma compatibility_entry_01: "compatibility_entry item b = 0 \<or> compatibility_entry item b = 1"
  by (simp add: compatibility_entry_def)

lemma compatibility_entry_iff:
  "compatibility_entry item b = 1 \<longleftrightarrow>
     (tag item \<noteq> ''fragile'' \<or> type_col b = ''safe'') \<and>
     (tag item \<noteq> ''hazardous'' \<or> type_col b = ''special'')"
  by (auto simp: compatibility_entry_def)

lemma set_LpVariable_dicts: "set (LpVariable_dicts is bs) = set is \<times> set bs"
  by (auto simp: LpVariable_dicts_def)

lemma distinct_LpVariable_dicts:
  "distinct is \<Longrightarrow> distinct bs \<Longrightarrow> distinct (LpVariable_dicts is bs)"
  by (induction "is") (auto simp: LpVariable_dicts_def distinct_map inj_on_def)

lemma dom_build_compatibility:
  "dom (build_compatibility ms bs) = set (LpVariable_dicts (map material ms) (map bin bs))"
proof (rule set_eqI)
  fix k
  show "k \<in> dom (build_compatibility ms bs) \<longleftrightarrow> k \<in> set (LpVariable_dicts (map material ms) (map bin bs))"
  proof
    assume "k \<in> dom (build_compatibility ms bs)"
    then have "build_compatibility ms bs k \<noteq> None" by auto
    then show "k \<in> set (LpVariable_dicts (map material ms) (map bin bs))"
      using build_compatibility_none [of k ms bs] by metis
  next
    assume "k \<in> set (LpVariable_dicts (map material ms) (map bin bs))"
    then obtain item b where "item \<in> set ms" "b \<in> set bs" "k = (material item, bin b)"
      by (auto simp: set_LpVariable_dicts)
    then show "k \<in> dom (build_compatibility ms bs)"
      using build_compatibility_some [of item ms b bs] by auto
  qed
qed

text \<open>
  Claim C9. When the identifiers of the materials and of the bins are unique, the entry
  of the compatibility matrix for a material and a bin is 1 if and only if (the tag is
  not fragile or the bin is safe) and (the tag is not hazardous or the bin is special);
  so a fragile material is compatible with the safe bins only, and a hazardous one with
  the special bins only.
\<close>

theorem compatibility_characterised:
  assumes "distinct (map material ms)" and "distinct (map bin bs)"
    and "item \<in> set ms" and "b \<in> set bs"
  shows "(build_compatibility ms bs (material item, bin b) = Some 1 \<longleftrightarrow>
           (tag item \<noteq> ''fragile'' \<or> type_col b = ''safe'') \<and>
           (tag item \<noteq> ''hazardous'' \<or> type_col b = ''special'')) \<and>
         (tag item = ''fragile'' \<longrightarrow>
           (build_compatibility ms bs (material item, bin b) = Some 1 \<longleftrightarrow> type_col b = ''safe'')) \<and>
         (tag item = ''hazardous'' \<longrightarrow>
           (build_compatibility ms bs (material item, bin b) = Some 1 \<longleftrightarrow> type_col b = ''special''))"
  using build_compatibility_distinct [OF assms] by (simp add: compatibility_entry_iff)

theorem compatibility_characterised_witness:
  "distinct (map material materials) \<and> distinct (map bin bins) \<and>
   \<lparr>material = ''M1'', frequency = 3, size_col = 5, tag = ''fragile''\<rparr> \<in> set materials \<and>
   \<lparr>bin = ''B2'', capacity = 20, distance = 2, type_col = ''regular''\<rparr> \<in> set bins \<and>
   build_compatibility materials bins (''M1'', ''B2'') \<noteq> Some 1"
proof -
  have d1: "distinct (map material materials)" by (simp add: materials_def)
  have d2: "distinct (map bin bins)" by (simp add: bins_def)
  have m: "\<lparr>material = ''M1'', frequency = 3, size_col = 5, tag = ''fragile''\<rparr> \<in> set materials"
    by (simp add: materials_def)
  have b: "\<lparr>bin = ''B2'', capacity = 20, distance = 2, type_col = ''regular''\<rparr> \<in> set bins"
    by (simp add: bins_def)
  show ?thesis using compatibility_characterised [OF d1 d2 m b] d1 d2 m b by simp
qed

text \<open>
  Claim C10. The entry depends on the tag of the material and the type of the bin only:
  two materials with the same tag and two bins with the same type get the same entry,
  whatever their identifiers, sizes, frequencies, capacities and distances, also across
  two different catalogs. The matrix is total: every pair has an entry, which is 0 or 1,
  its keys are exactly the pairs of identifiers, and there are as many as materials
  times bins.
\<close>

theorem compatibility_depends_on_tag_and_type_only:
  assumes "distinct (map material ms)" and "distinct (map bin bs)"
    and "distinct (map material ms')" and "distinct (map bin bs')"
    and "item \<in> set ms" and "b \<in> set bs" and "item' \<in> set ms'" and "b' \<in> set bs'"
    and "tag item = tag item'" and "type_col b = type_col b'"
  shows "build_compatibility ms bs (material item, bin b) =
           build_compatibility ms' bs' (material item', bin b') \<and>
         (build_compatibility ms bs (material item, bin b) = Some 0 \<or>
          build_compatibility ms bs (material item, bin b) = Some 1) \<and>
         dom (build_compatibility ms bs) = set (map material ms) \<times> set (map bin bs) \<and>
         card (dom (build_compatibility ms bs)) = length ms * length bs"
proof -
  have e: "build_compatibility ms bs (material item, bin b) = Some (compatibility_entry item b)"
    using assms by (simp add: build_compatibility_distinct)
  have e': "build_compatibility ms' bs' (material item', bin b') = Some (compatibility_entry item' b')"
    using assms by (simp add: build_compatibility_distinct)
  have same: "compatibility_entry item b = compatibility_entry item' b'"
    using assms(9,10) by (simp add: compatibility_entry_def)
  have d: "dom (build_compatibility ms bs) = set (map material ms) \<times> set (map bin bs)"
    by (simp only: dom_build_compatibility set_LpVariable_dicts)
  have "card (set (map material ms) \<times> set (map bin bs)) = length ms * length bs"
    using distinct_card [OF assms(1)] distinct_card [OF assms(2)] by (simp add: card_cartesian_product)
  then show ?thesis using e e' same d compatibility_entry_01 [of item b] by simp
qed

theorem compatibility_depends_on_tag_and_type_only_witness:
  "distinct (map material materials) \<and> distinct (map bin bins) \<and>
   \<lparr>material = ''M1'', frequency = 3, size_col = 5, tag = ''fragile''\<rparr> \<in> set materials \<and>
   \<lparr>material = ''M7'', frequency = 3, size_col = 6, tag = ''fragile''\<rparr> \<in> set materials \<and>
   \<lparr>bin = ''B1'', capacity = 15, distance = 1, type_col = ''safe''\<rparr> \<in> set bins \<and>
   \<lparr>bin = ''B5'', capacity = 12, distance = 4, type_col = ''safe''\<rparr> \<in> set bins \<and>
   build_compatibility materials bins (''M1'', ''B1'') = build_compatibility materials bins (''M7'', ''B5'') \<and>
   card (dom (build_compatibility materials bins)) = 50"
proof -
  have d1: "distinct (map material materials)" by (simp add: materials_def)
  have d2: "distinct (map bin bins)" by (simp add: bins_def)
  have m1: "\<lparr>material = ''M1'', frequency = 3, size_col = 5, tag = ''fragile''\<rparr> \<in> set materials"
    by (simp add: materials_def)
  have m7: "\<lparr>material = ''M7'', frequency = 3, size_col = 6, tag = ''fragile''\<rparr> \<in> set materials"
    by (simp add: materials_def)
  have b1: "\<lparr>bin = ''B1'', capacity = 15, distance = 1, type_col = ''safe''\<rparr> \<in> set bins"
    by (simp add: bins_def)
  have b5: "\<lparr>bin = ''B5'', capacity = 12, distance = 4, type_col = ''safe''\<rparr> \<in> set bins"
    by (simp add: bins_def)
  have l: "length materials = 10" "length bins = 5" by (simp_all add: materials_def bins_def)
  note t = compatibility_depends_on_tag_and_type_only [OF d1 d2 d1 d2 m1 b1 m7 b5]
  have "build_compatibility materials bins (''M1'', ''B1'') =
      build_compatibility materials bins (''M7'', ''B5'')"
    using t [THEN conjunct1] by simp
  moreover have "card (dom (build_compatibility materials bins)) = 50"
    using t [THEN conjunct2, THEN conjunct2, THEN conjunct2] l by simp
  ultimately show ?thesis using d1 d2 m1 m7 b1 b5 by simp
qed

text \<open>
  Claim C8. A material whose tag is neither fragile nor hazardous (a regular one, for
  instance) is recorded as compatible with every bin.
\<close>

theorem default_allow:
  assumes "distinct (map material ms)" and "distinct (map bin bs)"
    and "item \<in> set ms" and "b \<in> set bs"
    and "tag item \<noteq> ''fragile''" and "tag item \<noteq> ''hazardous''"
  shows "build_compatibility ms bs (material item, bin b) = Some 1"
  using build_compatibility_distinct [OF assms(1-4)] assms(5,6)
  by (simp add: compatibility_entry_def)

theorem default_allow_witness:
  "distinct (map material materials) \<and> distinct (map bin bins) \<and>
   \<lparr>material = ''M2'', frequency = 1, size_col = 4, tag = ''regular''\<rparr> \<in> set materials \<and>
   \<lparr>bin = ''B3'', capacity = 10, distance = 3, type_col = ''special''\<rparr> \<in> set bins \<and>
   ''regular'' \<noteq> ''fragile'' \<and> ''regular'' \<noteq> ''hazardous'' \<and>
   build_compatibility materials bins (''M2'', ''B3'') = Some 1"
proof -
  have d1: "distinct (map material materials)" by (simp add: materials_def)
  have d2: "distinct (map bin bins)" by (simp add: bins_def)
  have m: "\<lparr>material = ''M2'', frequency = 1, size_col = 4, tag = ''regular''\<rparr> \<in> set materials"
    by (simp add: materials_def)
  have b: "\<lparr>bin = ''B3'', capacity = 10, distance = 3, type_col = ''special''\<rparr> \<in> set bins"
    by (simp add: bins_def)
  show ?thesis using default_allow [OF d1 d2 m b] d1 d2 m b by simp
qed

section \<open>Building the model\<close>

text \<open>With unique identifiers no lookup raises, and the model has a closed form.\<close>

lemma bind_err_Inr [simp]: "bind_err (Inr a) f = f a"
  by (simp add: bind_err_def)

lemma bind_err_Inl [simp]: "bind_err (Inl e) f = Inl e"
  by (simp add: bind_err_def)

lemma filter_key_distinct:
  "distinct (map fst rows) \<Longrightarrow> (k, v) \<in> set rows \<Longrightarrow> filter (\<lambda>r. fst r = k) rows = [(k, v)]"
proof (induction rows)
  case Nil
  then show ?case by simp
next
  case (Cons r rows)
  show ?case
  proof (cases "r = (k, v)")
    case True
    then have "k \<notin> fst ` set rows" using Cons.prems(1) by auto
    then have "filter (\<lambda>r. fst r = k) rows = []" by (auto simp: filter_empty_conv)
    then show ?thesis using True by simp
  next
    case False
    then have "(k, v) \<in> set rows" using Cons.prems(2) by simp
    then have "k \<in> fst ` set rows" by force
    then have "fst r \<noteq> k" using Cons.prems(1) by auto
    then show ?thesis using Cons \<open>(k, v) \<in> set rows\<close> by simp
  qed
qed

lemma loc_distinct:
  "distinct (map fst rows) \<Longrightarrow> (k, v) \<in> set rows \<Longrightarrow> loc rows k = Inr v"
  by (simp add: loc_def filter_key_distinct)

lemma loc_column:
  assumes "distinct (map key xs)" and "x \<in> set xs"
  shows "loc (map (\<lambda>y. (key y, col y)) xs) (key x) = Inr (col x)"
proof (rule loc_distinct)
  show "distinct (map fst (map (\<lambda>y. (key y, col y)) xs))" using assms(1) by (simp add: comp_def)
  show "(key x, col x) \<in> set (map (\<lambda>y. (key y, col y)) xs)" using assms(2) by auto
qed

lemma sequence_err_Inr:
  "(\<And>x. x \<in> set xs \<Longrightarrow> f x = Inr (g x)) \<Longrightarrow> sequence_err (map f xs) = Inr (map g xs)"
  by (induction xs) simp_all

lemma sequence_err_Inr_map:
  "(\<And>x. x \<in> set xs \<Longrightarrow> f (h x) = Inr (g x)) \<Longrightarrow>
     sequence_err (map f (map h xs)) = Inr (map g xs)"
  by (induction xs) simp_all

lemma sequence_err_InrD:
  "sequence_err rs = Inr as \<Longrightarrow> rs = map Inr as"
proof (induction rs arbitrary: as)
  case Nil
  then show ?case by simp
next
  case (Cons r rs)
  then show ?case
    by (cases r; cases "sequence_err rs") auto
qed

lemma LpVariable_dicts_product:
  "LpVariable_dicts (map material ms) (map bin bs) =
     map (\<lambda>p. (material (fst p), bin (snd p))) (List.product ms bs)"
  by (induction ms) (simp_all add: LpVariable_dicts_def comp_def)

lemma objective_expr_distinct:
  assumes "distinct (map material ms)" and "distinct (map bin bs)"
  shows "objective_expr ms bs = Inr (objective_terms ms bs)"
proof -
  have "sequence_err
      (map (\<lambda>x. bind_err (loc (map (\<lambda>m. (material m, frequency m)) ms) (fst x)) (\<lambda>f.
                 bind_err (loc (map (\<lambda>b. (bin b, distance b)) bs) (snd x)) (\<lambda>d.
                 Inr (x, f, d))))
        (map (\<lambda>p. (material (fst p), bin (snd p))) (List.product ms bs))) =
      Inr (map (\<lambda>p. ((material (fst p), bin (snd p)), frequency (fst p), distance (snd p)))
        (List.product ms bs))"
    by (rule sequence_err_Inr_map) (auto simp: loc_column [OF assms(1)] loc_column [OF assms(2)])
  then show ?thesis
    by (simp add: objective_expr_def LpVariable_dicts_product objective_terms_def filter_map comp_def)
qed

lemma capacity_constraints_distinct:
  assumes "distinct (map material ms)" and "distinct (map bin bs)"
  shows "capacity_constraints ms bs = Inr (map (capacity_row ms) bs)"
proof -
  have inner: "sequence_err
        (map (\<lambda>i. bind_err (loc (map (\<lambda>m. (material m, size_col m)) ms) i) (\<lambda>s. Inr ((i, k), s)))
          (map material ms)) = Inr (map (\<lambda>m. ((material m, k), size_col m)) ms)" for k
    by (rule sequence_err_Inr_map) (simp add: loc_column [OF assms(1)])
  show ?thesis
    unfolding capacity_constraints_def inner
    by (rule sequence_err_Inr_map)
      (simp add: loc_column [OF assms(2)] capacity_row_def filter_map comp_def)
qed

lemma compatibility_constraints_distinct:
  assumes "distinct (map material ms)" and "distinct (map bin bs)"
  shows "compatibility_constraints (build_compatibility ms bs) ms bs =
    Inr (map compatibility_row (List.product ms bs))"
  unfolding compatibility_constraints_def LpVariable_dicts_product
  by (rule sequence_err_Inr_map)
    (auto simp: build_compatibility_distinct [OF assms] compatibility_row_def)

lemma build_model_distinct:
  assumes "distinct (map material ms)" and "distinct (map bin bs)"
  shows "build_model ms bs =
    Inr \<lparr>objective = objective_terms ms bs,
         constraints = coverage_constraints ms bs @ map (capacity_row ms) bs @
           map compatibility_row (List.product ms bs)\<rparr>"
  by (simp add: build_model_def objective_expr_distinct [OF assms]
      capacity_constraints_distinct [OF assms] compatibility_constraints_distinct [OF assms])

lemma distinct_materials: "distinct (map material materials)"
  by (simp add: materials_def)

lemma distinct_bins: "distinct (map bin bins)"
  by (simp add: bins_def)

lemma set_variables_distinct:
  assumes "distinct (map material ms)" and "distinct (map bin bs)"
    and "build_model ms bs = Inr model"
  shows "set (variables model) = set (map material ms) \<times> set (map bin bs)"
proof -
  have m: "model = \<lparr>objective = objective_terms ms bs,
         constraints = coverage_constraints ms bs @ map (capacity_row ms) bs @
           map compatibility_row (List.product ms bs)\<rparr>"
    using build_model_distinct [OF assms(1,2)] assms(3) by simp
  show ?thesis
    unfolding m variables_def coverage_constraints_def objective_terms_def capacity_row_def
      compatibility_row_def
    by (auto simp: image_iff)
qed

text \<open>When the names of all pairs differ, \<open>model.solve()\<close> does not raise, and the cell
  prints.\<close>

lemma distinct_map_subset:
  assumes "distinct (map f xs)" and "distinct ys" and "set ys \<subseteq> set xs"
  shows "distinct (map f ys)"
proof -
  have "inj_on f (set xs)" using assms(1) by (simp add: distinct_map)
  then have "inj_on f (set ys)" using assms(3) by (rule inj_on_subset)
  then show ?thesis using assms(2) by (simp add: distinct_map)
qed

lemma variable_names_distinct:
  assumes "distinct (map material ms)" and "distinct (map bin bs)"
    and "distinct (map variable_name (LpVariable_dicts (map material ms) (map bin bs)))"
    and "build_model ms bs = Inr model"
  shows "distinct (map variable_name (variables model))"
proof (rule distinct_map_subset [OF assms(3)])
  show "distinct (variables model)" by (simp add: variables_def)
  show "set (variables model) \<subseteq> set (LpVariable_dicts (map material ms) (map bin bs))"
    using set_variables_distinct [OF assms(1,2,4)] by (simp add: set_LpVariable_dicts)
qed

lemma notebook_prints:
  assumes "distinct (map material ms)" and "distinct (map bin bs)"
    and "distinct (map variable_name (LpVariable_dicts (map material ms) (map bin bs)))"
    and "build_model ms bs = Inr model" and "snd (solve model) = v"
  shows "notebook rnd solve ms bs =
    Inr \<lparr>assigned_lines = map format_line (output_loop v (map material ms) (map bin bs)),
         total_weighted_distance = objective_value rnd v model\<rparr>"
  using variable_names_distinct [OF assms(1,2,3,4)] assms(4,5)
  by (simp add: notebook_def Let_def)

lemma hardcoded_names_distinct:
  "distinct (map variable_name (LpVariable_dicts (map material materials) (map bin bins)))"
  by code_simp

section \<open>Values of the variables and the printed assignment\<close>

lemma expr_value_binary:
  "binary_values v (map fst ts) \<Longrightarrow>
     expr_value v ts = Some (of_int (sum_list (map snd (filter (\<lambda>t. v (fst t) = Some 1) ts))))"
  by (induction ts) (auto simp: binary_values_def)

lemma binary_values_subset:
  "binary_values v xs \<Longrightarrow> set ys \<subseteq> set xs \<Longrightarrow> binary_values v ys"
  by (auto simp: binary_values_def list_all_iff)

lemma binary_saved_values: "binary_values saved_values xs"
  by (simp add: binary_values_def saved_values_def list_all_iff)

lemma set_output_loop:
  "set (output_loop v is bs) = {x. fst x \<in> set is \<and> snd x \<in> set bs \<and> v x = Some 1}"
  by (auto simp: output_loop_def set_LpVariable_dicts)

lemma printed_iff:
  "m \<in> set ms \<Longrightarrow> b \<in> set bs \<Longrightarrow>
     (material m, bin b) \<in> set (output_loop v (map material ms) (map bin bs)) \<longleftrightarrow>
     v (material m, bin b) = Some 1"
  by (auto simp: set_output_loop)

lemma sum_list_filter_nonzero:
  fixes f :: "'a \<Rightarrow> int"
  shows "sum_list (map f (filter P (filter (\<lambda>x. f x \<noteq> 0) xs))) = sum_list (map f (filter P xs))"
  by (induction xs) simp_all

lemma capacity_row_value:
  assumes "binary_values v (LpVariable_dicts (map material ms) (map bin bs))" and "b \<in> set bs"
  shows "expr_value v (lhs (capacity_row ms b)) =
     Some (of_int (assigned_size (output_loop v (map material ms) (map bin bs)) ms b))"
proof -
  let ?row = "map (\<lambda>m. ((material m, bin b), size_col m)) (filter (\<lambda>m. size_col m \<noteq> 0) ms)"
  have "set (map fst ?row) \<subseteq> set (LpVariable_dicts (map material ms) (map bin bs))"
    using assms(2) by (auto simp: set_LpVariable_dicts)
  then have "binary_values v (map fst ?row)"
    using assms(1) binary_values_subset by blast
  then have "expr_value v ?row =
      Some (of_int (sum_list (map snd (filter (\<lambda>t. v (fst t) = Some 1) ?row))))"
    by (rule expr_value_binary)
  also have "map snd (filter (\<lambda>t. v (fst t) = Some 1) ?row) =
      map size_col (filter (\<lambda>m. v (material m, bin b) = Some 1) (filter (\<lambda>m. size_col m \<noteq> 0) ms))"
    by (simp add: filter_map comp_def)
  also have "sum_list \<dots> = sum_list (map size_col (filter (\<lambda>m. v (material m, bin b) = Some 1) ms))"
    by (rule sum_list_filter_nonzero)
  also have "filter (\<lambda>m. v (material m, bin b) = Some 1) ms =
      filter (\<lambda>m. (material m, bin b) \<in> set (output_loop v (map material ms) (map bin bs))) ms"
    by (rule filter_cong) (simp_all add: printed_iff [OF _ assms(2)])
  finally show ?thesis by (simp add: assigned_size_def capacity_row_def)
qed

text \<open>What the capacity constraints are for: values that are 0 or 1 and satisfy them print,
  with every bin, materials whose sizes add up to at most the capacity of the bin.\<close>

lemma solution_respects_capacity:
  assumes "distinct (map material ms)" and "distinct (map bin bs)"
    and "capacity_constraints ms bs = Inr cap" and "list_all (holds v) cap"
    and "binary_values v (LpVariable_dicts (map material ms) (map bin bs))"
    and "b \<in> set bs"
  shows "assigned_size (output_loop v (map material ms) (map bin bs)) ms b \<le> capacity b"
proof -
  have "cap = map (capacity_row ms) bs"
    using capacity_constraints_distinct [OF assms(1,2)] assms(3) by simp
  then have h: "holds v (capacity_row ms b)"
    using assms(4,6) by (auto simp: list_all_iff)
  have "sense (capacity_row ms b) = LpConstraintLE" and "rhs (capacity_row ms b) = capacity b"
    by (simp_all add: capacity_row_def)
  then show ?thesis
    using h by (simp add: holds_def capacity_row_value [OF assms(5,6)])
qed

lemma compatibility_constraint_present:
  assumes "compatibility_constraints c ms bs = Inr cs"
    and "x \<in> set (LpVariable_dicts (map material ms) (map bin bs))"
  shows "\<exists>k. c x = Some k \<and> \<lparr>lhs = [(x, 1)], sense = LpConstraintLE, rhs = k\<rparr> \<in> set cs"
proof -
  let ?f = "\<lambda>x. case c x of None \<Rightarrow> Inl KeyError
     | Some k \<Rightarrow> Inr \<lparr>lhs = [(x, 1)], sense = LpConstraintLE, rhs = k\<rparr>"
  have eq: "map ?f (LpVariable_dicts (map material ms) (map bin bs)) = map Inr cs"
    using assms(1) unfolding compatibility_constraints_def by (rule sequence_err_InrD)
  have "?f x \<in> set (map ?f (LpVariable_dicts (map material ms) (map bin bs)))"
    using assms(2) by simp
  then have "?f x \<in> set (map Inr cs)" by (simp only: eq)
  then show ?thesis by (cases "c x") auto
qed

text \<open>What the compatibility constraints are for: values that satisfy them are 1 on
  compatible pairs only.\<close>

lemma value_one_compatible:
  assumes "compatibility_constraints (build_compatibility ms bs) ms bs = Inr cs"
    and "list_all (holds v) cs"
    and "x \<in> set (LpVariable_dicts (map material ms) (map bin bs))" and "v x = Some 1"
  shows "build_compatibility ms bs x = Some 1"
proof -
  obtain k where k: "build_compatibility ms bs x = Some k"
    and c: "\<lparr>lhs = [(x, 1)], sense = LpConstraintLE, rhs = k\<rparr> \<in> set cs"
    using compatibility_constraint_present [OF assms(1,3)] by blast
  have "holds v \<lparr>lhs = [(x, 1)], sense = LpConstraintLE, rhs = k\<rparr>"
    using assms(2) c by (simp add: list_all_iff)
  then have "1 \<le> k" using assms(4) by (cases x) (simp add: holds_def)
  moreover obtain item b where ib: "item \<in> set ms" "b \<in> set bs" "x = (material item, bin b)"
    using assms(3) by (auto simp: set_LpVariable_dicts)
  obtain item' b' where
    "build_compatibility ms bs (material item, bin b) = Some (compatibility_entry item' b')"
    using build_compatibility_some [OF ib(1,2)] by blast
  then have "k = compatibility_entry item' b'" using k ib(3) by simp
  then have "k = 0 \<or> k = 1" using compatibility_entry_01 [of item' b'] by simp
  ultimately show ?thesis using k by auto
qed

lemma solution_respects_compatibility:
  assumes "compatibility_constraints (build_compatibility ms bs) ms bs = Inr cs"
    and "list_all (holds v) cs"
    and "x \<in> set (output_loop v (map material ms) (map bin bs))"
  shows "build_compatibility ms bs x = Some 1"
proof -
  have "x \<in> set (LpVariable_dicts (map material ms) (map bin bs))" and "v x = Some 1"
    using assms(3) by (simp_all add: output_loop_def)
  then show ?thesis by (rule value_one_compatible [OF assms(1,2)])
qed

text \<open>What the coverage constraints are for: values that are 0 or 1 and satisfy them print
  every material exactly once, in the order of the catalog.\<close>

lemma coverage_gives_slot:
  assumes "binary_values v (LpVariable_dicts is bs)" and "i \<in> set is"
    and "holds v \<lparr>lhs = map (\<lambda>b. ((i, b), 1)) bs, sense = LpConstraintEQ, rhs = 1\<rparr>"
  shows "\<exists>b\<in>set bs. v (i, b) = Some 1"
proof (rule ccontr)
  assume "\<not> (\<exists>b\<in>set bs. v (i, b) = Some 1)"
  then have none: "filter (\<lambda>t. v (fst t) = Some 1) (map (\<lambda>b. ((i, b), 1::int)) bs) = []"
    by (auto simp: filter_empty_conv)
  have "set (map fst (map (\<lambda>b. ((i, b), 1::int)) bs)) \<subseteq> set (LpVariable_dicts is bs)"
    using assms(2) by (auto simp: set_LpVariable_dicts)
  then have "binary_values v (map fst (map (\<lambda>b. ((i, b), 1::int)) bs))"
    using assms(1) binary_values_subset by blast
  then have "expr_value v (map (\<lambda>b. ((i, b), 1)) bs) = Some 0"
    using expr_value_binary [of v "map (\<lambda>b. ((i, b), 1)) bs"] none by simp
  then show False using assms(3) by (simp add: holds_def)
qed

lemma coverage_row_count:
  "sum_list (map snd (filter (\<lambda>t. Q (fst t)) (map (\<lambda>b. ((i, b), 1::int)) bs))) =
     int (length (filter (\<lambda>b. Q (i, b)) bs))"
  by (induction bs) simp_all

lemma printed_row:
  "map fst (filter Q (map (\<lambda>b. (i, b)) bs)) = replicate (length (filter (\<lambda>b. Q (i, b)) bs)) i"
  by (induction bs) simp_all

lemma coverage_prints_each_material_once:
  assumes "binary_values v (LpVariable_dicts (map material ms) (map bin bs))"
    and "list_all (holds v) (coverage_constraints ms bs)"
  shows "map fst (output_loop v (map material ms) (map bin bs)) = map material ms"
  using assms
proof (induction ms)
  case Nil
  then show ?case by (simp add: output_loop_def LpVariable_dicts_def)
next
  case (Cons m ms)
  let ?row = "map (\<lambda>b. ((material m, b), 1::int)) (map bin bs)"
  have bv: "binary_values v (map fst ?row)"
    using Cons.prems(1) by (rule binary_values_subset) (auto simp: set_LpVariable_dicts)
  have "holds v \<lparr>lhs = ?row, sense = LpConstraintEQ, rhs = 1\<rparr>"
    using Cons.prems(2) by (simp add: coverage_constraints_def)
  then have "expr_value v ?row = Some 1"
    by (auto simp: holds_def split: option.splits)
  then have "sum_list (map snd (filter (\<lambda>t. v (fst t) = Some 1) ?row)) = 1"
    by (simp only: expr_value_binary [OF bv] option.inject of_int_eq_1_iff)
  then have one: "length (filter (\<lambda>b. v (material m, b) = Some 1) (map bin bs)) = 1"
    by (simp only: coverage_row_count [where Q = "\<lambda>x. v x = Some 1"])
  have rest: "map fst (output_loop v (map material ms) (map bin bs)) = map material ms"
  proof (rule Cons.IH)
    show "binary_values v (LpVariable_dicts (map material ms) (map bin bs))"
      using Cons.prems(1) by (rule binary_values_subset) (auto simp: set_LpVariable_dicts)
    show "list_all (holds v) (coverage_constraints ms bs)"
      using Cons.prems(2) by (simp add: coverage_constraints_def)
  qed
  have "output_loop v (map material (m # ms)) (map bin bs) =
      filter (\<lambda>x. v x = Some 1) (map (\<lambda>b. (material m, b)) (map bin bs)) @
      output_loop v (map material ms) (map bin bs)"
    by (simp add: output_loop_def LpVariable_dicts_def)
  then show ?case
    by (simp only: map_append printed_row one rest) simp
qed

section \<open>The reported objective\<close>













section \<open>Variables and constraints of the model\<close>

text \<open>
  Claim C3, as amended. The model has a decision variable for every pair (material, bin),
  compatible or not, and for every pair an explicit constraint
  \<open>x[i][b] <= compatibility[(i, b)]\<close>, whose right-hand side is the entry of the matrix
  (0 for an incompatible pair).
\<close>

theorem every_pair_has_variable_and_constraint:
  assumes "distinct (map material ms)" and "distinct (map bin bs)"
  shows "\<exists>model. build_model ms bs = Inr model \<and>
      set (variables model) = set (map material ms) \<times> set (map bin bs) \<and>
      (\<forall>x\<in>set (map material ms) \<times> set (map bin bs).
         \<exists>c. build_compatibility ms bs x = Some c \<and> (c = 0 \<or> c = 1) \<and>
           \<lparr>lhs = [(x, 1)], sense = LpConstraintLE, rhs = c\<rparr> \<in> set (constraints model))"
proof -
  obtain model where m: "build_model ms bs = Inr model"
    using build_model_distinct [OF assms] by simp
  have "\<exists>c. build_compatibility ms bs x = Some c \<and> (c = 0 \<or> c = 1) \<and>
      \<lparr>lhs = [(x, 1)], sense = LpConstraintLE, rhs = c\<rparr> \<in> set (constraints model)"
    if xin: "x \<in> set (map material ms) \<times> set (map bin bs)" for x
  proof -
    obtain item b where ib: "item \<in> set ms" "b \<in> set bs" "x = (material item, bin b)"
      using xin by auto
    have c: "build_compatibility ms bs x = Some (compatibility_entry item b)"
      using build_compatibility_distinct [OF assms ib(1,2)] ib(3) by simp
    have "compatibility_row (item, b) \<in> set (constraints model)"
      using build_model_distinct [OF assms] m ib(1,2) by auto
    then have "\<lparr>lhs = [(x, 1)], sense = LpConstraintLE, rhs = compatibility_entry item b\<rparr>
        \<in> set (constraints model)"
      by (simp add: compatibility_row_def ib(3))
    then show ?thesis using c compatibility_entry_01 [of item b] by simp
  qed
  then show ?thesis using m set_variables_distinct [OF assms m] by blast
qed

theorem every_pair_has_variable_and_constraint_witness:
  "distinct (map material materials) \<and> distinct (map bin bins) \<and>
   (\<exists>model. build_model materials bins = Inr model \<and>
      (''M3'', ''B1'') \<in> set (variables model) \<and>
      \<lparr>lhs = [((''M3'', ''B1''), 1)], sense = LpConstraintLE, rhs = 0\<rparr> \<in> set (constraints model))"
proof -
  obtain model where m: "build_model materials bins = Inr model"
    and v: "set (variables model) = set (map material materials) \<times> set (map bin bins)"
    and c: "\<forall>x\<in>set (map material materials) \<times> set (map bin bins).
         \<exists>c. build_compatibility materials bins x = Some c \<and> (c = 0 \<or> c = 1) \<and>
           \<lparr>lhs = [(x, 1)], sense = LpConstraintLE, rhs = c\<rparr> \<in> set (constraints model)"
    using every_pair_has_variable_and_constraint [OF distinct_materials distinct_bins] by blast
  have x: "(''M3'', ''B1'') \<in> set (map material materials) \<times> set (map bin bins)"
    by (simp add: materials_def bins_def)
  have e: "build_compatibility materials bins (''M3'', ''B1'') = Some 0" by code_simp
  have "\<lparr>lhs = [((''M3'', ''B1''), 1)], sense = LpConstraintLE, rhs = 0\<rparr> \<in> set (constraints model)"
    using c x e by fastforce
  then show ?thesis using m v x distinct_materials distinct_bins by blast
qed

text \<open>
  Against claim C3 as stated: in the model of the hard-coded data the pair (M1, B2) is
  incompatible, yet its variable is a variable of the model and the model holds the
  explicit constraint that bounds it by zero.
\<close>

theorem variable_and_constraint_for_incompatible_pair:
  "build_compatibility materials bins (''M1'', ''B2'') = Some 0 \<and>
   (case build_model materials bins of
      Inl e \<Rightarrow> False
    | Inr model \<Rightarrow>
        (''M1'', ''B2'') \<in> set (variables model) \<and>
        \<lparr>lhs = [((''M1'', ''B2''), 1)], sense = LpConstraintLE, rhs = 0\<rparr> \<in> set (constraints model))"
  by code_simp

section \<open>The hard-coded data are infeasible\<close>

lemma sum_list_filter_mono:
  fixes f :: "'a \<Rightarrow> int"
  assumes "\<And>x. x \<in> set xs \<Longrightarrow> 0 \<le> f x" and "\<And>x. x \<in> set xs \<Longrightarrow> Q x \<Longrightarrow> P x"
  shows "sum_list (map f (filter Q xs)) \<le> sum_list (map f (filter P xs))"
  using assms
proof (induction xs)
  case Nil
  then show ?case by simp
next
  case (Cons x xs)
  have ih: "sum_list (map f (filter Q xs)) \<le> sum_list (map f (filter P xs))"
    using Cons by simp
  have "0 \<le> f x" using Cons.prems(1) by simp
  moreover have "Q x \<Longrightarrow> P x" using Cons.prems(2) by simp
  ultimately show ?case using ih by auto
qed

lemma hazardous_only_B3:
  assumes "compatibility_constraints (build_compatibility materials bins) materials bins = Inr cs"
    and "list_all (holds v) cs"
    and "i = ''M3'' \<or> i = ''M6'' \<or> i = ''M9''" and "b \<in> set (map bin bins)"
    and "v (i, b) = Some 1"
  shows "b = ''B3''"
proof -
  have i: "i \<in> set (map material materials)" using assms(3) by (auto simp: materials_def)
  then have x: "(i, b) \<in> set (LpVariable_dicts (map material materials) (map bin bins))"
    using assms(4) by (simp add: set_LpVariable_dicts)
  have one: "build_compatibility materials bins (i, b) = Some 1"
    using value_one_compatible [OF assms(1,2) x assms(5)] .
  obtain m r where mr: "m \<in> set materials" "r \<in> set bins" "i = material m" "b = bin r"
    using i assms(4) by auto
  have "compatibility_entry m r = 1"
    using build_compatibility_distinct [OF distinct_materials distinct_bins mr(1,2)] one mr(3,4)
    by simp
  moreover have "tag m = ''hazardous''"
    using mr(1,3) assms(3) by (auto simp: materials_def)
  ultimately have "type_col r = ''special''"
    by (simp add: compatibility_entry_def split: if_splits)
  then show ?thesis using mr(2,4) by (auto simp: bins_def)
qed

lemma B3_overfull:
  assumes "capacity_constraints materials bins = Inr cap" and "list_all (holds v) cap"
    and "binary_values v (LpVariable_dicts (map material materials) (map bin bins))"
    and "v (''M3'', ''B3'') = Some 1" and "v (''M6'', ''B3'') = Some 1"
    and "v (''M9'', ''B3'') = Some 1"
  shows False
proof -
  let ?a = "output_loop v (map material materials) (map bin bins)"
  define r where "r = \<lparr>bin = ''B3'', capacity = 10, distance = 3, type_col = ''special''\<rparr>"
  have r: "r \<in> set bins" "bin r = ''B3''" "capacity r = 10"
    by (simp_all add: r_def bins_def)
  have "assigned_size ?a materials r \<le> capacity r"
    by (rule solution_respects_capacity [OF distinct_materials distinct_bins assms(1,2,3) r(1)])
  then have le: "assigned_size ?a materials r \<le> 10" using r(3) by simp
  have "sum_list (map size_col (filter (\<lambda>m. material m = ''M3'' \<or> material m = ''M6'' \<or> material m = ''M9'') materials))
      \<le> sum_list (map size_col (filter (\<lambda>m. (material m, bin r) \<in> set ?a) materials))"
  proof (rule sum_list_filter_mono)
    fix m assume "m \<in> set materials"
    then show "0 \<le> size_col m" by (auto simp: materials_def)
  next
    fix m assume m: "m \<in> set materials"
      and "material m = ''M3'' \<or> material m = ''M6'' \<or> material m = ''M9''"
    then have "v (material m, bin r) = Some 1" using assms(4,5,6) r(2) by auto
    then show "(material m, bin r) \<in> set ?a" using printed_iff [OF m r(1)] by simp
  qed
  moreover have "sum_list (map size_col (filter (\<lambda>m. material m = ''M3'' \<or> material m = ''M6'' \<or> material m = ''M9'') materials)) = 12"
    by (simp add: materials_def)
  ultimately show False using le by (simp add: assigned_size_def)
qed

lemma hardcoded_core:
  assumes "capacity_constraints materials bins = Inr cap" and "list_all (holds v) cap"
    and "compatibility_constraints (build_compatibility materials bins) materials bins = Inr cs"
    and "list_all (holds v) cs"
    and "binary_values v (LpVariable_dicts (map material materials) (map bin bins))"
    and "\<exists>b\<in>set (map bin bins). v (''M3'', b) = Some 1"
    and "\<exists>b\<in>set (map bin bins). v (''M6'', b) = Some 1"
    and "\<exists>b\<in>set (map bin bins). v (''M9'', b) = Some 1"
  shows False
proof -
  have "v (''M3'', ''B3'') = Some 1"
    using assms(6) hazardous_only_B3 [OF assms(3,4), of "''M3''"] by blast
  moreover have "v (''M6'', ''B3'') = Some 1"
    using assms(7) hazardous_only_B3 [OF assms(3,4), of "''M6''"] by blast
  moreover have "v (''M9'', ''B3'') = Some 1"
    using assms(8) hazardous_only_B3 [OF assms(3,4), of "''M9''"] by blast
  ultimately show False using B3_overfull [OF assms(1,2,5)] by simp
qed

text \<open>
  Claim C1, at the hard-coded data. No values of the variables satisfy the model (the
  hazardous materials M3, M6 and M9, of sizes 6, 2 and 4, fit bin B3 only, whose capacity
  is 10), and still the notebook returns its printed output for every solver and every
  rounding: nothing in it raises on an infeasible model.
\<close>

theorem hardcoded_infeasible_yet_printed:
  "\<not> (\<exists>v model. build_model materials bins = Inr model \<and> feasible v materials bins model) \<and>
   (\<forall>rnd solve. \<exists>out. notebook rnd solve materials bins = Inr out)"
proof
  show "\<not> (\<exists>v model. build_model materials bins = Inr model \<and> feasible v materials bins model)"
  proof
    assume "\<exists>v model. build_model materials bins = Inr model \<and> feasible v materials bins model"
    then obtain v model where m: "build_model materials bins = Inr model"
      and f: "feasible v materials bins model" by blast
    have c: "constraints model = coverage_constraints materials bins @
        map (capacity_row materials) bins @ map compatibility_row (List.product materials bins)"
      using build_model_distinct [OF distinct_materials distinct_bins] m by auto
    have bv: "binary_values v (LpVariable_dicts (map material materials) (map bin bins))"
      using f by (simp add: feasible_def)
    have all: "list_all (holds v) (coverage_constraints materials bins)"
      "list_all (holds v) (map (capacity_row materials) bins)"
      "list_all (holds v) (map compatibility_row (List.product materials bins))"
      using f by (simp_all add: feasible_def c)
    have slot: "\<exists>b\<in>set (map bin bins). v (i, b) = Some 1" if i: "i \<in> set (map material materials)" for i
    proof -
      have "holds v \<lparr>lhs = map (\<lambda>b. ((i, b), 1)) (map bin bins), sense = LpConstraintEQ, rhs = 1\<rparr>"
        using all(1) i by (auto simp: coverage_constraints_def list_all_iff)
      then show ?thesis by (rule coverage_gives_slot [OF bv i])
    qed
    have "\<exists>b\<in>set (map bin bins). v (''M3'', b) = Some 1"
      by (rule slot) (simp add: materials_def)
    moreover have "\<exists>b\<in>set (map bin bins). v (''M6'', b) = Some 1"
      by (rule slot) (simp add: materials_def)
    moreover have "\<exists>b\<in>set (map bin bins). v (''M9'', b) = Some 1"
      by (rule slot) (simp add: materials_def)
    ultimately show False
      using hardcoded_core [OF capacity_constraints_distinct [OF distinct_materials distinct_bins] all(2)
          compatibility_constraints_distinct [OF distinct_materials distinct_bins] all(3) bv]
      by blast
  qed
next
  obtain model where m: "build_model materials bins = Inr model"
    using build_model_distinct [OF distinct_materials distinct_bins] by simp
  show "\<forall>rnd solve. \<exists>out. notebook rnd solve materials bins = Inr out"
    using notebook_prints [OF distinct_materials distinct_bins hardcoded_names_distinct m refl]
    by blast
qed

text \<open>
  Claim C6, at the hard-coded data. Whatever values the solver leaves, if they are 0 or 1
  and respect the capacity and compatibility constraints, the printed mapping cannot
  contain every material: at least one is left out (the saved output leaves out M7
  and M9).
\<close>

theorem hardcoded_mapping_never_complete:
  "\<not> (\<exists>v cap cs.
        capacity_constraints materials bins = Inr cap \<and> list_all (holds v) cap \<and>
        compatibility_constraints (build_compatibility materials bins) materials bins = Inr cs \<and>
        list_all (holds v) cs \<and>
        binary_values v (LpVariable_dicts (map material materials) (map bin bins)) \<and>
        list_all (\<lambda>i. i \<in> set (map fst (output_loop v (map material materials) (map bin bins))))
          (map material materials))"
proof
  assume "\<exists>v cap cs.
        capacity_constraints materials bins = Inr cap \<and> list_all (holds v) cap \<and>
        compatibility_constraints (build_compatibility materials bins) materials bins = Inr cs \<and>
        list_all (holds v) cs \<and>
        binary_values v (LpVariable_dicts (map material materials) (map bin bins)) \<and>
        list_all (\<lambda>i. i \<in> set (map fst (output_loop v (map material materials) (map bin bins))))
          (map material materials)"
  then obtain v cap cs where h:
    "capacity_constraints materials bins = Inr cap" "list_all (holds v) cap"
    "compatibility_constraints (build_compatibility materials bins) materials bins = Inr cs"
    "list_all (holds v) cs"
    "binary_values v (LpVariable_dicts (map material materials) (map bin bins))"
    and p: "list_all (\<lambda>i. i \<in> set (map fst (output_loop v (map material materials) (map bin bins))))
          (map material materials)"
    by blast
  have slot: "\<exists>b\<in>set (map bin bins). v (i, b) = Some 1" if i: "i \<in> set (map material materials)" for i
  proof -
    have "i \<in> set (map fst (output_loop v (map material materials) (map bin bins)))"
      using p i by (auto simp: list_all_iff)
    then show ?thesis by (auto simp: set_output_loop)
  qed
  have "\<exists>b\<in>set (map bin bins). v (''M3'', b) = Some 1"
    by (rule slot) (simp add: materials_def)
  moreover have "\<exists>b\<in>set (map bin bins). v (''M6'', b) = Some 1"
    by (rule slot) (simp add: materials_def)
  moreover have "\<exists>b\<in>set (map bin bins). v (''M9'', b) = Some 1"
    by (rule slot) (simp add: materials_def)
  ultimately show False using hardcoded_core [OF h] by blast
qed

text \<open>
  Claim C7, at the hard-coded data. With values that print the saved output, the report is
  the eight saved lines: M7 and M9 are materials of the catalog, no line mentions them,
  and no line marks them as unassigned.
\<close>

theorem saved_report_omits_M7_and_M9:
  "''M7'' \<in> set (map material materials) \<and> ''M9'' \<in> set (map material materials) \<and>
   ''M7'' \<notin> set (map fst (output_loop saved_values (map material materials) (map bin bins))) \<and>
   ''M9'' \<notin> set (map fst (output_loop saved_values (map material materials) (map bin bins))) \<and>
   (\<forall>rnd. map_sum id assigned_lines
      (notebook rnd (\<lambda>model. (LpStatusInfeasible, saved_values)) materials bins) =
     Inr [''M1 -> B1'', ''M2 -> B4'', ''M3 -> B3'', ''M4 -> B4'',
          ''M5 -> B4'', ''M6 -> B3'', ''M8 -> B4'', ''M10 -> B1''])"
proof -
  obtain model where m: "build_model materials bins = Inr model"
    using build_model_distinct [OF distinct_materials distinct_bins] by simp
  have lines: "map format_line (output_loop saved_values (map material materials) (map bin bins)) =
     [''M1 -> B1'', ''M2 -> B4'', ''M3 -> B3'', ''M4 -> B4'',
      ''M5 -> B4'', ''M6 -> B3'', ''M8 -> B4'', ''M10 -> B1'']"
    by code_simp
  have "map_sum id assigned_lines
      (notebook rnd (\<lambda>model. (LpStatusInfeasible, saved_values)) materials bins) =
     Inr [''M1 -> B1'', ''M2 -> B4'', ''M3 -> B3'', ''M4 -> B4'',
          ''M5 -> B4'', ''M6 -> B3'', ''M8 -> B4'', ''M10 -> B1'']" for rnd
    using notebook_prints [where rnd = rnd and solve = "\<lambda>model. (LpStatusInfeasible, saved_values)"
        and model = model, OF distinct_materials distinct_bins hardcoded_names_distinct m]
    by (simp add: lines)
  moreover have "''M7'' \<in> set (map material materials)" "''M9'' \<in> set (map material materials)"
    by (simp_all add: materials_def)
  moreover have
    "''M7'' \<notin> set (map fst (output_loop saved_values (map material materials) (map bin bins)))"
    "''M9'' \<notin> set (map fst (output_loop saved_values (map material materials) (map bin bins)))"
    by code_simp+
  ultimately show ?thesis by blast
qed

section \<open>Infeasible models whose printed assignment breaks a constraint\<close>

text \<open>The cell prints whatever values are left in the variables. On a catalog whose model
  is infeasible no values satisfy all constraints; the two catalogs below each leave the
  solver one variable, and the values that satisfy the coverage constraint (the variable
  is 1) break the other one.\<close>

lemma one_pair_prints:
  "map_sum id assigned_lines (notebook rnd (\<lambda>model. (st, all_ones)) [m] [b]) =
     Inr [material m @ '' -> '' @ bin b]"
proof -
  have d1: "distinct (map material [m])" and d2: "distinct (map bin [b])" by simp_all
  have names: "distinct (map variable_name (LpVariable_dicts (map material [m]) (map bin [b])))"
    by (simp add: LpVariable_dicts_def)
  obtain model where mo: "build_model [m] [b] = Inr model"
    using build_model_distinct [OF d1 d2] by simp
  show ?thesis
    using notebook_prints [where rnd = rnd and solve = "\<lambda>model. (st, all_ones)" and model = model,
        OF d1 d2 names mo]
    by (simp add: output_loop_def LpVariable_dicts_def all_ones_def format_line_def)
qed

lemma one_pair_always_prints: "\<exists>out. notebook rnd solve [m] [b] = Inr out"
proof -
  have d1: "distinct (map material [m])" and d2: "distinct (map bin [b])" by simp_all
  have names: "distinct (map variable_name (LpVariable_dicts (map material [m]) (map bin [b])))"
    by (simp add: LpVariable_dicts_def)
  obtain model where mo: "build_model [m] [b] = Inr model"
    using build_model_distinct [OF d1 d2] by simp
  show ?thesis
    using notebook_prints [where rnd = rnd and solve = solve and model = model,
        OF d1 d2 names mo refl]
    by blast
qed

text \<open>
  Claim C4, at a catalog of one material of size 10 and one bin of capacity 5. The model
  is infeasible. The cell still prints, whatever the solver returns: for the outcome that
  leaves the variable at 1 (a 0/1 value that satisfies the coverage constraint), it
  prints the material with the bin, a total size of 10 in a capacity of 5.
\<close>

theorem unchecked_status_prints_overfull_bin:
  "\<not> (\<exists>v model. build_model large_material small_bin = Inr model \<and>
        feasible v large_material small_bin model) \<and>
   (\<forall>rnd solve. \<exists>out. notebook rnd solve large_material small_bin = Inr out) \<and>
   binary_values all_ones (LpVariable_dicts (map material large_material) (map bin small_bin)) \<and>
   list_all (holds all_ones) (coverage_constraints large_material small_bin) \<and>
   (\<forall>rnd. map_sum id assigned_lines
      (notebook rnd (\<lambda>model. (LpStatusInfeasible, all_ones)) large_material small_bin) =
     Inr [''M1 -> B1'']) \<and>
   list_all (\<lambda>b. assigned_size
        (output_loop all_ones (map material large_material) (map bin small_bin)) large_material b = 10 \<and>
      capacity b = 5) small_bin"
proof (intro conjI)
  show "\<not> (\<exists>v model. build_model large_material small_bin = Inr model \<and>
        feasible v large_material small_bin model)"
  proof
    assume "\<exists>v model. build_model large_material small_bin = Inr model \<and>
        feasible v large_material small_bin model"
    then obtain v model where m: "build_model large_material small_bin = Inr model"
      and f: "feasible v large_material small_bin model" by blast
    have d: "distinct (map material large_material)" "distinct (map bin small_bin)"
      by (simp_all add: large_material_def small_bin_def)
    have c: "constraints model = coverage_constraints large_material small_bin @
        map (capacity_row large_material) small_bin @
        map compatibility_row (List.product large_material small_bin)"
      using build_model_distinct [OF d] m by auto
    have "v (''M1'', ''B1'') = Some 0 \<or> v (''M1'', ''B1'') = Some 1"
      using f by (simp add: feasible_def binary_values_def LpVariable_dicts_def
          large_material_def small_bin_def)
    moreover have "holds v \<lparr>lhs = [((''M1'', ''B1''), 1)], sense = LpConstraintEQ, rhs = 1\<rparr>"
      and "holds v \<lparr>lhs = [((''M1'', ''B1''), 10)], sense = LpConstraintLE, rhs = 5\<rparr>"
      using f by (simp_all add: feasible_def c coverage_constraints_def capacity_row_def
          large_material_def small_bin_def)
    ultimately show False by (auto simp: holds_def)
  qed
next
  show "\<forall>rnd solve. \<exists>out. notebook rnd solve large_material small_bin = Inr out"
    using one_pair_always_prints by (simp add: large_material_def small_bin_def)
next
  show "binary_values all_ones (LpVariable_dicts (map material large_material) (map bin small_bin))"
    by code_simp
next
  show "list_all (holds all_ones) (coverage_constraints large_material small_bin)"
    by code_simp
next
  show "\<forall>rnd. map_sum id assigned_lines
      (notebook rnd (\<lambda>model. (LpStatusInfeasible, all_ones)) large_material small_bin) =
     Inr [''M1 -> B1'']"
    using one_pair_prints [where st = LpStatusInfeasible
        and m = "\<lparr>material = ''M1'', frequency = 1, size_col = 10, tag = ''regular''\<rparr>"
        and b = "\<lparr>bin = ''B1'', capacity = 5, distance = 1, type_col = ''regular''\<rparr>"]
    by (simp add: large_material_def small_bin_def)
next
  show "list_all (\<lambda>b. assigned_size
        (output_loop all_ones (map material large_material) (map bin small_bin)) large_material b = 10 \<and>
      capacity b = 5) small_bin"
    by code_simp
qed

text \<open>
  Claim C5, at a catalog of one hazardous material and one regular bin. The model is
  infeasible. The cell still prints, whatever the solver returns: for the outcome that
  leaves the variable at 1 (a 0/1 value that satisfies the coverage constraint), it
  prints the material with the bin, a pair whose entry in the matrix is 0.
\<close>

theorem unchecked_status_prints_incompatible_pair:
  "\<not> (\<exists>v model. build_model hazardous_material regular_bin = Inr model \<and>
        feasible v hazardous_material regular_bin model) \<and>
   (\<forall>rnd solve. \<exists>out. notebook rnd solve hazardous_material regular_bin = Inr out) \<and>
   binary_values all_ones
     (LpVariable_dicts (map material hazardous_material) (map bin regular_bin)) \<and>
   list_all (holds all_ones) (coverage_constraints hazardous_material regular_bin) \<and>
   (\<forall>rnd. map_sum id assigned_lines
      (notebook rnd (\<lambda>model. (LpStatusInfeasible, all_ones)) hazardous_material regular_bin) =
     Inr [''M1 -> B2'']) \<and>
   (''M1'', ''B2'') \<in> set (output_loop all_ones (map material hazardous_material) (map bin regular_bin)) \<and>
   build_compatibility hazardous_material regular_bin (''M1'', ''B2'') = Some 0"
proof (intro conjI)
  show "\<not> (\<exists>v model. build_model hazardous_material regular_bin = Inr model \<and>
        feasible v hazardous_material regular_bin model)"
  proof
    assume "\<exists>v model. build_model hazardous_material regular_bin = Inr model \<and>
        feasible v hazardous_material regular_bin model"
    then obtain v model where m: "build_model hazardous_material regular_bin = Inr model"
      and f: "feasible v hazardous_material regular_bin model" by blast
    have d: "distinct (map material hazardous_material)" "distinct (map bin regular_bin)"
      by (simp_all add: hazardous_material_def regular_bin_def)
    have c: "constraints model = coverage_constraints hazardous_material regular_bin @
        map (capacity_row hazardous_material) regular_bin @
        map compatibility_row (List.product hazardous_material regular_bin)"
      using build_model_distinct [OF d] m by auto
    have "holds v \<lparr>lhs = [((''M1'', ''B2''), 1)], sense = LpConstraintEQ, rhs = 1\<rparr>"
      and "holds v \<lparr>lhs = [((''M1'', ''B2''), 1)], sense = LpConstraintLE, rhs = 0\<rparr>"
      using f by (simp_all add: feasible_def c coverage_constraints_def compatibility_row_def
          compatibility_entry_def hazardous_material_def regular_bin_def)
    then show False by (auto simp: holds_def split: option.splits)
  qed
next
  show "\<forall>rnd solve. \<exists>out. notebook rnd solve hazardous_material regular_bin = Inr out"
    using one_pair_always_prints by (simp add: hazardous_material_def regular_bin_def)
next
  show "binary_values all_ones
     (LpVariable_dicts (map material hazardous_material) (map bin regular_bin))"
    by code_simp
next
  show "list_all (holds all_ones) (coverage_constraints hazardous_material regular_bin)"
    by code_simp
next
  show "\<forall>rnd. map_sum id assigned_lines
      (notebook rnd (\<lambda>model. (LpStatusInfeasible, all_ones)) hazardous_material regular_bin) =
     Inr [''M1 -> B2'']"
    using one_pair_prints [where st = LpStatusInfeasible
        and m = "\<lparr>material = ''M1'', frequency = 1, size_col = 1, tag = ''hazardous''\<rparr>"
        and b = "\<lparr>bin = ''B2'', capacity = 5, distance = 1, type_col = ''regular''\<rparr>"]
    by (simp add: hazardous_material_def regular_bin_def)
next
  show "(''M1'', ''B2'') \<in> set (output_loop all_ones (map material hazardous_material) (map bin regular_bin))"
    by code_simp
next
  show "build_compatibility hazardous_material regular_bin (''M1'', ''B2'') = Some 0"
    by code_simp
qed

end
